theory Spec2Isabelle
  imports Main "HOL-Library.Sublist"
begin

section \<open>The Python fragment the script is written in\<close>

text \<open>
  \<^verbatim>\<open>verify_app.py\<close> is eight lines of straight-line Python: one import, one
  \<^verbatim>\<open>with\<close> statement and five method calls in its block. Everything it does is done by
  the browser-automation library, so the model keeps the script's own control flow exact
  and takes the library as a parameter: an oracle that is asked for the outcome of each
  action, given everything that has happened so far.
\<close>

text \<open>An exception, by the text that identifies it (its class and message).\<close>

datatype exn = Exn string

text \<open>
  The Python values the script handles: \<^verbatim>\<open>None\<close>, booleans, strings, opaque objects of
  the library (the manager, the browser, the page, ...) and the three arguments the
  \<^verbatim>\<open>with\<close> statement hands to \<^verbatim>\<open>__exit__\<close> when its block raised.
\<close>

datatype pyval =
    PNone
  | PBool bool
  | PStr string
  | PObj nat
  | PExcType exn
  | PExcVal exn
  | PTraceback exn

text \<open>Python's truth value of an object, as the \<^verbatim>\<open>with\<close> statement tests it.\<close>

fun truthy :: "pyval \<Rightarrow> bool" where
  "truthy PNone = False"
| "truthy (PBool b) = b"
| "truthy (PStr s) = (s \<noteq> [])"
| "truthy (PObj n) = True"
| "truthy (PExcType e) = True"
| "truthy (PExcVal e) = True"
| "truthy (PTraceback e) = True"

text \<open>
  What the script asks of the library: \<^verbatim>\<open>from m import n\<close>, or a call
  \<^verbatim>\<open>recv.a1. ... .ak(args, kw=...)\<close>, recorded as the receiver, the attribute path
  (empty when the receiver itself is called), the positional and the keyword arguments.
\<close>

datatype action =
    Import string string
  | Invoke pyval "string list" "pyval list" "(string \<times> pyval) list"

datatype outcome = Returns pyval | Raises exn

type_synonym event = "action \<times> outcome"

text \<open>The library: the outcome of an action after a history of events.\<close>

type_synonym library = "event list \<Rightarrow> action \<Rightarrow> outcome"

text \<open>
  A piece of script: run against a library from a history, it ends with an uncaught
  exception (\<open>Inl\<close>) or a value (\<open>Inr\<close>), and the history extended by what it did.
\<close>

type_synonym 'a prog = "library \<Rightarrow> event list \<Rightarrow> (exn + 'a) \<times> event list"

definition perform :: "action \<Rightarrow> pyval prog" where
  "perform a lib tr =
     (case lib tr a of
        Returns v \<Rightarrow> (Inr v, tr @ [(a, Returns v)])
      | Raises e \<Rightarrow> (Inl e, tr @ [(a, Raises e)]))"

text \<open>Statement sequencing: an exception skips everything that follows.\<close>

definition and_then :: "'a prog \<Rightarrow> ('a \<Rightarrow> 'b prog) \<Rightarrow> 'b prog" where
  "and_then m f lib tr =
     (case m lib tr of
        (Inl e, tr') \<Rightarrow> (Inl e, tr')
      | (Inr v, tr') \<Rightarrow> f v lib tr')"

definition finish :: "unit prog" where
  "finish lib tr = (Inr (), tr)"

text \<open>
  \<^verbatim>\<open>with ctx as x: block\<close>. The manager expression is evaluated and entered; the block
  runs with the value \<^verbatim>\<open>__enter__\<close> returned. When the block ends normally
  \<^verbatim>\<open>__exit__(None, None, None)\<close> is called and its result ignored. When the block raises
  \<open>e\<close>, \<^verbatim>\<open>__exit__\<close> is called with the exception's type, value and traceback: a true
  result swallows \<open>e\<close>, a false one re-raises it, and an exception raised by
  \<^verbatim>\<open>__exit__\<close> itself replaces it.
\<close>

definition with_stmt :: "pyval prog \<Rightarrow> (pyval \<Rightarrow> unit prog) \<Rightarrow> unit prog" where
  "with_stmt ctx block lib tr =
     (case ctx lib tr of
        (Inl e, tr1) \<Rightarrow> (Inl e, tr1)
      | (Inr mgr, tr1) \<Rightarrow>
          (case perform (Invoke mgr [''__enter__''] [] []) lib tr1 of
             (Inl e, tr2) \<Rightarrow> (Inl e, tr2)
           | (Inr x, tr2) \<Rightarrow>
               (case block x lib tr2 of
                  (Inr u, tr3) \<Rightarrow>
                    (case perform (Invoke mgr [''__exit__''] [PNone, PNone, PNone] []) lib tr3 of
                       (Inl e', tr4) \<Rightarrow> (Inl e', tr4)
                     | (Inr r, tr4) \<Rightarrow> (Inr (), tr4))
                | (Inl e, tr3) \<Rightarrow>
                    (case perform (Invoke mgr [''__exit__'']
                                     [PExcType e, PExcVal e, PTraceback e] []) lib tr3 of
                       (Inl e', tr4) \<Rightarrow> (Inl e', tr4)
                     | (Inr r, tr4) \<Rightarrow> if truthy r then (Inr (), tr4) else (Inl e, tr4)))))"

section \<open>The script\<close>

text \<open>
  Lines 4 to 8, the block of the \<^verbatim>\<open>with\<close> statement, \<open>p\<close> being the value bound by
  \<^verbatim>\<open>as p\<close>:
  \<^verbatim>\<open>
    browser = p.chromium.launch()
    page = browser.new_page()
    page.goto("http://localhost:5173/src")
    page.screenshot(path="app/jules-scratch/verification/verification.png")
    browser.close()
  \<close>
\<close>

definition with_body :: "pyval \<Rightarrow> unit prog" where
  "with_body p =
     and_then (perform (Invoke p [''chromium'', ''launch''] [] [])) (\<lambda>browser.
     and_then (perform (Invoke browser [''new_page''] [] [])) (\<lambda>page.
     and_then (perform (Invoke page [''goto''] [PStr ''http://localhost:5173/src''] [])) (\<lambda>r1.
     and_then (perform (Invoke page [''screenshot''] []
                 [(''path'', PStr ''app/jules-scratch/verification/verification.png'')])) (\<lambda>r2.
     and_then (perform (Invoke browser [''close''] [] [])) (\<lambda>r3.
     finish)))))"

text \<open>
  The module: line 1, \<^verbatim>\<open>from playwright.sync_api import sync_playwright\<close>, then line 3,
  \<^verbatim>\<open>with sync_playwright() as p:\<close>, around the block.
\<close>

definition script :: "unit prog" where
  "script =
     and_then (perform (Import ''playwright.sync_api'' ''sync_playwright'')) (\<lambda>sync_playwright.
     with_stmt (perform (Invoke sync_playwright [] [] [])) with_body)"

text \<open>
  One execution of the process: the interpreter runs the module from an empty history.
  The command line and the environment are there, as for every process; the module never
  looks at them.
\<close>

definition verify_app ::
    "string list \<Rightarrow> (string \<times> string) list \<Rightarrow> library \<Rightarrow> (exn + unit) \<times> event list" where
  "verify_app argv environ lib = script lib []"

text \<open>
  The status the interpreter exits with: 1 after an uncaught exception (and its traceback),
  0 when the module ran to its end. (An exception here is an error of the library; a
  request to exit, which carries its own status, is not among them.)
\<close>

fun exit_status :: "exn + unit \<Rightarrow> nat" where
  "exit_status (Inl e) = 1"
| "exit_status (Inr u) = 0"

section \<open>Reading a run\<close>

text \<open>The name of the function called: the last attribute of the path.\<close>

fun callee :: "action \<Rightarrow> string" where
  "callee (Import m n) = []"
| "callee (Invoke recv path args kw) = (if path = [] then [] else last path)"

text \<open>The actions of a history, in order, and those that call a given method.\<close>

definition actions :: "event list \<Rightarrow> action list" where
  "actions tr = map fst tr"

definition calls_to :: "string \<Rightarrow> event list \<Rightarrow> action list" where
  "calls_to m tr = filter (\<lambda>a. callee a = m) (actions tr)"

fun raised :: "event \<Rightarrow> bool" where
  "raised (a, Raises e) = True"
| "raised (a, Returns v) = False"

text \<open>An action without its receiver: what is called and with which arguments.\<close>

fun signature :: "action \<Rightarrow> action" where
  "signature (Import m n) = Import m n"
| "signature (Invoke recv path args kw) = Invoke PNone path args kw"

text \<open>
  The steps the module writes down, in the order it writes them: the import, the call of
  the imported function, the \<^verbatim>\<open>with\<close> statement's entry, and the five calls of the block.
\<close>

definition written_steps :: "action list" where
  "written_steps =
     [Import ''playwright.sync_api'' ''sync_playwright'',
      Invoke PNone [] [] [],
      Invoke PNone [''__enter__''] [] [],
      Invoke PNone [''chromium'', ''launch''] [] [],
      Invoke PNone [''new_page''] [] [],
      Invoke PNone [''goto''] [PStr ''http://localhost:5173/src''] [],
      Invoke PNone [''screenshot''] []
        [(''path'', PStr ''app/jules-scratch/verification/verification.png'')],
      Invoke PNone [''close''] [] []]"

text \<open>The steps of a run: its actions but the \<^verbatim>\<open>with\<close> statement's \<^verbatim>\<open>__exit__\<close>.\<close>

definition steps :: "event list \<Rightarrow> action list" where
  "steps tr = filter (\<lambda>a. callee a \<noteq> ''__exit__'') (actions tr)"

text \<open>The calls made by the block of the \<^verbatim>\<open>with\<close> statement (lines 4 to 8).\<close>

definition block_calls :: "event list \<Rightarrow> action list" where
  "block_calls tr =
     filter (\<lambda>a. callee a \<in> set [''launch'', ''new_page'', ''goto'', ''screenshot'', ''close''])
       (actions tr)"

text \<open>
  The image files of a run. The library saves a screenshot at the \<^verbatim>\<open>path\<close> keyword of
  the call, and has done so when the call returns; nothing else in the script names a file.
\<close>

fun saved :: "event \<Rightarrow> string list" where
  "saved (Invoke recv path args kw, Returns v) =
     (if callee (Invoke recv path args kw) = ''screenshot''
      then (case map_of kw ''path'' of Some (PStr f) \<Rightarrow> [f] | _ \<Rightarrow> [])
      else [])"
| "saved (a, out) = []"

definition output_files :: "event list \<Rightarrow> string list" where
  "output_files tr = concat (map saved tr)"

text \<open>
  Failures. The exceptions raised during a run, in order; what the run did after the first
  action that raised; and whether the manager's \<^verbatim>\<open>__exit__\<close> answered with a true
  value, which is how a context manager swallows the exception of its block. (The
  library's own manager returns \<^verbatim>\<open>None\<close>.)
\<close>

fun failure :: "event \<Rightarrow> exn list" where
  "failure (a, Raises e) = [e]"
| "failure (a, Returns v) = []"

definition failures :: "event list \<Rightarrow> exn list" where
  "failures tr = concat (map failure tr)"

definition after_failure :: "event list \<Rightarrow> event list" where
  "after_failure tr = tl (dropWhile (\<lambda>ev. \<not> raised ev) tr)"

fun swallowing :: "event \<Rightarrow> bool" where
  "swallowing (a, Returns v) = (callee a = ''__exit__'' \<and> truthy v)"
| "swallowing (a, Raises e) = False"

definition exit_swallows :: "event list \<Rightarrow> bool" where
  "exit_swallows tr = list_ex swallowing tr"

text \<open>Whether the manager's \<^verbatim>\<open>__exit__\<close> itself raised.\<close>

fun exit_failing :: "event \<Rightarrow> bool" where
  "exit_failing (a, Raises e) = (callee a = ''__exit__'')"
| "exit_failing (a, Returns v) = False"

definition exit_fails :: "event list \<Rightarrow> bool" where
  "exit_fails tr = list_ex exit_failing tr"

text \<open>The imports among the actions of a history.\<close>

fun is_import :: "action \<Rightarrow> bool" where
  "is_import (Import m n) = True"
| "is_import (Invoke recv path args kw) = False"

text \<open>
  A library replays a history when, asked each action of the history after the events that
  precede it, it gives the outcome the history records.
\<close>

fun replays :: "library \<Rightarrow> event list \<Rightarrow> event list \<Rightarrow> bool" where
  "replays lib h [] = True"
| "replays lib h ((a, out) # evs) = (lib h a = out \<and> replays lib (h @ [(a, out)]) evs)"

text \<open>Whether a call of a given method raised, or returned, during a history.\<close>

definition raised_in :: "string \<Rightarrow> event list \<Rightarrow> bool" where
  "raised_in m tr = list_ex (\<lambda>ev. raised ev \<and> callee (fst ev) = m) tr"

definition returned_from :: "string \<Rightarrow> event list \<Rightarrow> bool" where
  "returned_from m tr = list_ex (\<lambda>ev. \<not> raised ev \<and> callee (fst ev) = m) tr"

text \<open>
  The handles of the library that are open after a history, each with the object it was
  opened from. This is the library's side of the resource: \<^verbatim>\<open>launch\<close> and
  \<^verbatim>\<open>new_page\<close> that return have opened a browser and a page; a \<^verbatim>\<open>close\<close> that
  returns has closed its receiver and what was opened from it; and a manager's
  \<^verbatim>\<open>__exit__\<close> that returns has stopped the driver and with it every browser it
  started. A call that raises is taken to have released nothing.
\<close>

fun receiver :: "action \<Rightarrow> pyval" where
  "receiver (Import m n) = PNone"
| "receiver (Invoke recv path args kw) = recv"

fun handles_step :: "(pyval \<times> pyval) list \<Rightarrow> event \<Rightarrow> (pyval \<times> pyval) list" where
  "handles_step hs (a, Raises e) = hs"
| "handles_step hs (a, Returns v) =
     (if callee a = ''launch'' \<or> callee a = ''new_page'' then hs @ [(v, receiver a)]
      else if callee a = ''close''
        then filter (\<lambda>(h, parent). h \<noteq> receiver a \<and> parent \<noteq> receiver a) hs
      else if callee a = ''__exit__'' then []
      else hs)"

definition open_handles :: "event list \<Rightarrow> (pyval \<times> pyval) list" where
  "open_handles tr = foldl handles_step [] tr"

section \<open>The script's actions, named\<close>

text \<open>
  Names for the nine actions the module can take, and for the result of the
  \<^verbatim>\<open>with\<close> statement as a function of what \<^verbatim>\<open>__exit__\<close> did. They keep the case
  analysis of a run small; each is unfolded again where a property is read off.
\<close>

definition act_import :: action where
  "act_import = Import ''playwright.sync_api'' ''sync_playwright''"

definition act_call :: "pyval \<Rightarrow> action" where
  "act_call f = Invoke f [] [] []"

definition act_enter :: "pyval \<Rightarrow> action" where
  "act_enter mgr = Invoke mgr [''__enter__''] [] []"

definition act_exit :: "pyval \<Rightarrow> pyval list \<Rightarrow> action" where
  "act_exit mgr args = Invoke mgr [''__exit__''] args []"

definition act_launch :: "pyval \<Rightarrow> action" where
  "act_launch p = Invoke p [''chromium'', ''launch''] [] []"

definition act_new_page :: "pyval \<Rightarrow> action" where
  "act_new_page b = Invoke b [''new_page''] [] []"

definition act_goto :: "pyval \<Rightarrow> action" where
  "act_goto pg = Invoke pg [''goto''] [PStr ''http://localhost:5173/src''] []"

definition act_screenshot :: "pyval \<Rightarrow> action" where
  "act_screenshot pg =
     Invoke pg [''screenshot''] []
       [(''path'', PStr ''app/jules-scratch/verification/verification.png'')]"

definition act_close :: "pyval \<Rightarrow> action" where
  "act_close b = Invoke b [''close''] [] []"

definition exc_info :: "exn \<Rightarrow> pyval list" where
  "exc_info e = [PExcType e, PExcVal e, PTraceback e]"

fun after_block_failed :: "exn \<Rightarrow> outcome \<Rightarrow> exn + unit" where
  "after_block_failed e (Raises e') = Inl e'"
| "after_block_failed e (Returns r) = (if truthy r then Inr () else Inl e)"

fun after_block_ended :: "outcome \<Rightarrow> exn + unit" where
  "after_block_ended (Raises e') = Inl e'"
| "after_block_ended (Returns r) = Inr ()"

section \<open>Libraries to run the script against\<close>

text \<open>
  A library on which everything works: each call returns a fresh object, but
  \<^verbatim>\<open>close\<close> and \<^verbatim>\<open>__exit__\<close>, which return \<^verbatim>\<open>None\<close>.
\<close>

definition lib_up :: library where
  "lib_up tr a =
     Returns (if callee a \<in> set [''close'', ''__exit__''] then PNone else PObj (length tr))"

text \<open>The same with nothing listening on port 5173: the navigation raises.\<close>

definition lib_down :: library where
  "lib_down tr a =
     (if callee a = ''goto'' then Raises (Exn ''Error: net::ERR_CONNECTION_REFUSED'')
      else lib_up tr a)"

text \<open>The same as the first with a directory that cannot be written to.\<close>

definition lib_readonly :: library where
  "lib_readonly tr a =
     (if callee a = ''screenshot'' then Raises (Exn ''PermissionError'')
      else lib_up tr a)"

text \<open>
  The library with nothing listening on the port and, were the script to get that far,
  a directory that cannot be written to.
\<close>

definition lib_offline :: library where
  "lib_offline tr a =
     (if callee a = ''screenshot'' then Raises (Exn ''PermissionError'')
      else lib_down tr a)"

section \<open>Every run of the script\<close>

text \<open>
  The module has no loop and no branch of its own: a run is decided by which action, if
  any, is the first to raise, and by what \<^verbatim>\<open>__exit__\<close> answers. The lemmas below list
  the runs; every property of the script is read off that list.
\<close>

lemmas act_defs = act_import_def act_call_def act_enter_def act_exit_def act_launch_def
  act_new_page_def act_goto_def act_screenshot_def act_close_def exc_info_def

lemma and_then_perform:
  "and_then (perform a) f lib tr =
     (case lib tr a of
        Returns v \<Rightarrow> f v lib (tr @ [(a, Returns v)])
      | Raises e \<Rightarrow> (Inl e, tr @ [(a, Raises e)]))"
  by (simp add: and_then_def perform_def split: outcome.splits)

lemma with_body_folded:
  "with_body p =
     and_then (perform (act_launch p)) (\<lambda>browser.
     and_then (perform (act_new_page browser)) (\<lambda>page.
     and_then (perform (act_goto page)) (\<lambda>r1.
     and_then (perform (act_screenshot page)) (\<lambda>r2.
     and_then (perform (act_close browser)) (\<lambda>r3.
     finish)))))"
  by (simp add: with_body_def act_defs)

lemma with_body_shape:
  "(\<exists>e. with_body p lib tr = (Inl e, tr @ [(act_launch p, Raises e)])) \<or>
   (\<exists>b e. with_body p lib tr =
      (Inl e, tr @ [(act_launch p, Returns b), (act_new_page b, Raises e)])) \<or>
   (\<exists>b pg e. with_body p lib tr =
      (Inl e, tr @ [(act_launch p, Returns b), (act_new_page b, Returns pg),
         (act_goto pg, Raises e)])) \<or>
   (\<exists>b pg r1 e. with_body p lib tr =
      (Inl e, tr @ [(act_launch p, Returns b), (act_new_page b, Returns pg),
         (act_goto pg, Returns r1), (act_screenshot pg, Raises e)])) \<or>
   (\<exists>b pg r1 r2 e. with_body p lib tr =
      (Inl e, tr @ [(act_launch p, Returns b), (act_new_page b, Returns pg),
         (act_goto pg, Returns r1), (act_screenshot pg, Returns r2), (act_close b, Raises e)])) \<or>
   (\<exists>b pg r1 r2 r3. with_body p lib tr =
      (Inr (), tr @ [(act_launch p, Returns b), (act_new_page b, Returns pg),
         (act_goto pg, Returns r1), (act_screenshot pg, Returns r2), (act_close b, Returns r3)]))"
  unfolding with_body_folded and_then_perform finish_def
  by (simp split: outcome.splits)

lemma with_body_cases:
  obtains
    (launch_raises) e where
      "with_body p lib tr = (Inl e, tr @ [(act_launch p, Raises e)])"
  | (new_page_raises) b e where
      "with_body p lib tr = (Inl e, tr @ [(act_launch p, Returns b), (act_new_page b, Raises e)])"
  | (goto_raises) b pg e where
      "with_body p lib tr = (Inl e, tr @ [(act_launch p, Returns b), (act_new_page b, Returns pg),
         (act_goto pg, Raises e)])"
  | (screenshot_raises) b pg r1 e where
      "with_body p lib tr = (Inl e, tr @ [(act_launch p, Returns b), (act_new_page b, Returns pg),
         (act_goto pg, Returns r1), (act_screenshot pg, Raises e)])"
  | (close_raises) b pg r1 r2 e where
      "with_body p lib tr = (Inl e, tr @ [(act_launch p, Returns b), (act_new_page b, Returns pg),
         (act_goto pg, Returns r1), (act_screenshot pg, Returns r2), (act_close b, Raises e)])"
  | (block_ends) b pg r1 r2 r3 where
      "with_body p lib tr = (Inr (), tr @ [(act_launch p, Returns b), (act_new_page b, Returns pg),
         (act_goto pg, Returns r1), (act_screenshot pg, Returns r2), (act_close b, Returns r3)])"
  using with_body_shape [of p lib tr] by blast


lemma with_stmt_perform:
  "with_stmt (perform a) block lib tr =
     (case lib tr a of
        Raises e \<Rightarrow> (Inl e, tr @ [(a, Raises e)])
      | Returns mgr \<Rightarrow>
          (case lib (tr @ [(a, Returns mgr)]) (act_enter mgr) of
             Raises e \<Rightarrow> (Inl e, tr @ [(a, Returns mgr), (act_enter mgr, Raises e)])
           | Returns x \<Rightarrow>
               (case block x lib (tr @ [(a, Returns mgr), (act_enter mgr, Returns x)]) of
                  (Inl e, tr3) \<Rightarrow>
                    (after_block_failed e (lib tr3 (act_exit mgr (exc_info e))),
                     tr3 @ [(act_exit mgr (exc_info e), lib tr3 (act_exit mgr (exc_info e)))])
                | (Inr u, tr3) \<Rightarrow>
                    (after_block_ended (lib tr3 (act_exit mgr [PNone, PNone, PNone])),
                     tr3 @ [(act_exit mgr [PNone, PNone, PNone],
                             lib tr3 (act_exit mgr [PNone, PNone, PNone]))]))))"
  by (simp add: with_stmt_def perform_def act_enter_def act_exit_def exc_info_def
           split: outcome.splits sum.splits prod.splits)

lemma script_folded:
  "script lib [] =
     (case lib [] act_import of
        Raises e \<Rightarrow> (Inl e, [(act_import, Raises e)])
      | Returns f \<Rightarrow> with_stmt (perform (act_call f)) with_body lib [(act_import, Returns f)])"
  by (simp add: script_def and_then_perform act_import_def act_call_def split: outcome.splits)

lemma script_runs:
  obtains
    (import_raises) e where
      "script lib [] = (Inl e, [(act_import, Raises e)])"
  | (call_raises) f e where
      "script lib [] = (Inl e, [(act_import, Returns f), (act_call f, Raises e)])"
  | (enter_raises) f mgr e where
      "script lib [] = (Inl e, [(act_import, Returns f), (act_call f, Returns mgr),
         (act_enter mgr, Raises e)])"
  | (launch_raises) f mgr p e out where
      "script lib [] = (after_block_failed e out,
         [(act_import, Returns f), (act_call f, Returns mgr), (act_enter mgr, Returns p),
          (act_launch p, Raises e),
          (act_exit mgr (exc_info e), out)])"
  | (new_page_raises) f mgr p b e out where
      "script lib [] = (after_block_failed e out,
         [(act_import, Returns f), (act_call f, Returns mgr), (act_enter mgr, Returns p),
          (act_launch p, Returns b), (act_new_page b, Raises e),
          (act_exit mgr (exc_info e), out)])"
  | (goto_raises) f mgr p b pg e out where
      "script lib [] = (after_block_failed e out,
         [(act_import, Returns f), (act_call f, Returns mgr), (act_enter mgr, Returns p),
          (act_launch p, Returns b), (act_new_page b, Returns pg), (act_goto pg, Raises e),
          (act_exit mgr (exc_info e), out)])"
  | (screenshot_raises) f mgr p b pg r1 e out where
      "script lib [] = (after_block_failed e out,
         [(act_import, Returns f), (act_call f, Returns mgr), (act_enter mgr, Returns p),
          (act_launch p, Returns b), (act_new_page b, Returns pg), (act_goto pg, Returns r1),
          (act_screenshot pg, Raises e),
          (act_exit mgr (exc_info e), out)])"
  | (close_raises) f mgr p b pg r1 r2 e out where
      "script lib [] = (after_block_failed e out,
         [(act_import, Returns f), (act_call f, Returns mgr), (act_enter mgr, Returns p),
          (act_launch p, Returns b), (act_new_page b, Returns pg), (act_goto pg, Returns r1),
          (act_screenshot pg, Returns r2), (act_close b, Raises e),
          (act_exit mgr (exc_info e), out)])"
  | (block_ends) f mgr p b pg r1 r2 r3 out where
      "script lib [] = (after_block_ended out,
         [(act_import, Returns f), (act_call f, Returns mgr), (act_enter mgr, Returns p),
          (act_launch p, Returns b), (act_new_page b, Returns pg), (act_goto pg, Returns r1),
          (act_screenshot pg, Returns r2), (act_close b, Returns r3),
          (act_exit mgr [PNone, PNone, PNone], out)])"
proof (cases "lib [] act_import")
  case (Raises e)
  then show ?thesis using import_raises by (simp add: script_folded)
next
  case f: (Returns f)
  show ?thesis
  proof (cases "lib [(act_import, Returns f)] (act_call f)")
    case (Raises e)
    with f show ?thesis using call_raises by (simp add: script_folded with_stmt_perform)
  next
    case mgr: (Returns mgr)
    show ?thesis
    proof (cases "lib [(act_import, Returns f), (act_call f, Returns mgr)] (act_enter mgr)")
      case (Raises e)
      with f mgr show ?thesis using enter_raises by (simp add: script_folded with_stmt_perform)
    next
      case p: (Returns p)
      let ?hdr = "[(act_import, Returns f), (act_call f, Returns mgr), (act_enter mgr, Returns p)]"
      have run: "script lib [] =
        (case with_body p lib ?hdr of
           (Inl e, tr3) \<Rightarrow>
             (after_block_failed e (lib tr3 (act_exit mgr (exc_info e))),
              tr3 @ [(act_exit mgr (exc_info e), lib tr3 (act_exit mgr (exc_info e)))])
         | (Inr u, tr3) \<Rightarrow>
             (after_block_ended (lib tr3 (act_exit mgr [PNone, PNone, PNone])),
              tr3 @ [(act_exit mgr [PNone, PNone, PNone],
                      lib tr3 (act_exit mgr [PNone, PNone, PNone]))]))"
        using f mgr p by (simp add: script_folded with_stmt_perform)
      show ?thesis
      proof (cases rule: with_body_cases [of p lib ?hdr])
        case (launch_raises e)
        then show ?thesis using that(4) by (simp add: run)
      next
        case (new_page_raises b e)
        then show ?thesis using that(5) by (simp add: run)
      next
        case (goto_raises b pg e)
        then show ?thesis using that(6) by (simp add: run)
      next
        case (screenshot_raises b pg r1 e)
        then show ?thesis using that(7) by (simp add: run)
      next
        case (close_raises b pg r1 r2 e)
        then show ?thesis using that(8) by (simp add: run)
      next
        case (block_ends b pg r1 r2 r3)
        then show ?thesis using that(9) by (simp add: run)
      qed
    qed
  qed
qed

text \<open>
  The same list with the answer of \<^verbatim>\<open>__exit__\<close> spelled out: fifteen runs, each an
  explicit history.
\<close>

lemma script_cases:
  obtains
    (import_raises) e where
      "script lib [] = (Inl e, [(act_import, Raises e)])"
  | (call_raises) f e where
      "script lib [] = (Inl e, [(act_import, Returns f), (act_call f, Raises e)])"
  | (enter_raises) f mgr e where
      "script lib [] = (Inl e,
         [(act_import, Returns f), (act_call f, Returns mgr), (act_enter mgr, Raises e)])"
  | (launch_raises_exit_returns) f mgr p e r where
      "script lib [] = (if truthy r then Inr () else Inl e,
         [(act_import, Returns f), (act_call f, Returns mgr), (act_enter mgr, Returns p),
          (act_launch p, Raises e), (act_exit mgr (exc_info e), Returns r)])"
  | (launch_raises_exit_raises) f mgr p e e' where
      "script lib [] = (Inl e',
         [(act_import, Returns f), (act_call f, Returns mgr), (act_enter mgr, Returns p),
          (act_launch p, Raises e), (act_exit mgr (exc_info e), Raises e')])"
  | (new_page_raises_exit_returns) f mgr p b e r where
      "script lib [] = (if truthy r then Inr () else Inl e,
         [(act_import, Returns f), (act_call f, Returns mgr), (act_enter mgr, Returns p),
          (act_launch p, Returns b), (act_new_page b, Raises e),
          (act_exit mgr (exc_info e), Returns r)])"
  | (new_page_raises_exit_raises) f mgr p b e e' where
      "script lib [] = (Inl e',
         [(act_import, Returns f), (act_call f, Returns mgr), (act_enter mgr, Returns p),
          (act_launch p, Returns b), (act_new_page b, Raises e),
          (act_exit mgr (exc_info e), Raises e')])"
  | (goto_raises_exit_returns) f mgr p b pg e r where
      "script lib [] = (if truthy r then Inr () else Inl e,
         [(act_import, Returns f), (act_call f, Returns mgr), (act_enter mgr, Returns p),
          (act_launch p, Returns b), (act_new_page b, Returns pg), (act_goto pg, Raises e),
          (act_exit mgr (exc_info e), Returns r)])"
  | (goto_raises_exit_raises) f mgr p b pg e e' where
      "script lib [] = (Inl e',
         [(act_import, Returns f), (act_call f, Returns mgr), (act_enter mgr, Returns p),
          (act_launch p, Returns b), (act_new_page b, Returns pg), (act_goto pg, Raises e),
          (act_exit mgr (exc_info e), Raises e')])"
  | (screenshot_raises_exit_returns) f mgr p b pg r1 e r where
      "script lib [] = (if truthy r then Inr () else Inl e,
         [(act_import, Returns f), (act_call f, Returns mgr), (act_enter mgr, Returns p),
          (act_launch p, Returns b), (act_new_page b, Returns pg), (act_goto pg, Returns r1),
          (act_screenshot pg, Raises e), (act_exit mgr (exc_info e), Returns r)])"
  | (screenshot_raises_exit_raises) f mgr p b pg r1 e e' where
      "script lib [] = (Inl e',
         [(act_import, Returns f), (act_call f, Returns mgr), (act_enter mgr, Returns p),
          (act_launch p, Returns b), (act_new_page b, Returns pg), (act_goto pg, Returns r1),
          (act_screenshot pg, Raises e), (act_exit mgr (exc_info e), Raises e')])"
  | (close_raises_exit_returns) f mgr p b pg r1 r2 e r where
      "script lib [] = (if truthy r then Inr () else Inl e,
         [(act_import, Returns f), (act_call f, Returns mgr), (act_enter mgr, Returns p),
          (act_launch p, Returns b), (act_new_page b, Returns pg), (act_goto pg, Returns r1),
          (act_screenshot pg, Returns r2), (act_close b, Raises e),
          (act_exit mgr (exc_info e), Returns r)])"
  | (close_raises_exit_raises) f mgr p b pg r1 r2 e e' where
      "script lib [] = (Inl e',
         [(act_import, Returns f), (act_call f, Returns mgr), (act_enter mgr, Returns p),
          (act_launch p, Returns b), (act_new_page b, Returns pg), (act_goto pg, Returns r1),
          (act_screenshot pg, Returns r2), (act_close b, Raises e),
          (act_exit mgr (exc_info e), Raises e')])"
  | (block_ends_exit_returns) f mgr p b pg r1 r2 r3 r where
      "script lib [] = (Inr (),
         [(act_import, Returns f), (act_call f, Returns mgr), (act_enter mgr, Returns p),
          (act_launch p, Returns b), (act_new_page b, Returns pg), (act_goto pg, Returns r1),
          (act_screenshot pg, Returns r2), (act_close b, Returns r3),
          (act_exit mgr [PNone, PNone, PNone], Returns r)])"
  | (block_ends_exit_raises) f mgr p b pg r1 r2 r3 e' where
      "script lib [] = (Inl e',
         [(act_import, Returns f), (act_call f, Returns mgr), (act_enter mgr, Returns p),
          (act_launch p, Returns b), (act_new_page b, Returns pg), (act_goto pg, Returns r1),
          (act_screenshot pg, Returns r2), (act_close b, Returns r3),
          (act_exit mgr [PNone, PNone, PNone], Raises e')])"
proof (cases rule: script_runs [of lib])
  case (import_raises e)
  then show ?thesis using that(1) by simp
next
  case (call_raises f e)
  then show ?thesis using that(2) by simp
next
  case (enter_raises f mgr e)
  then show ?thesis using that(3) by simp
next
  case (launch_raises f mgr p e out)
  then show ?thesis using that(4,5) by (cases out) simp_all
next
  case (new_page_raises f mgr p b e out)
  then show ?thesis using that(6,7) by (cases out) simp_all
next
  case (goto_raises f mgr p b pg e out)
  then show ?thesis using that(8,9) by (cases out) simp_all
next
  case (screenshot_raises f mgr p b pg r1 e out)
  then show ?thesis using that(10,11) by (cases out) simp_all
next
  case (close_raises f mgr p b pg r1 r2 e out)
  then show ?thesis using that(12,13) by (cases out) simp_all
next
  case (block_ends f mgr p b pg r1 r2 r3 out)
  then show ?thesis using that(14,15) by (cases out) simp_all
qed

section \<open>Three runs, computed\<close>

lemmas eval_defs = verify_app_def script_def with_stmt_def with_body_def and_then_def
  perform_def finish_def

lemma run_up:
  "verify_app [] [] lib_up =
     (Inr (),
      [(Import ''playwright.sync_api'' ''sync_playwright'', Returns (PObj 0)),
       (Invoke (PObj 0) [] [] [], Returns (PObj 1)),
       (Invoke (PObj 1) [''__enter__''] [] [], Returns (PObj 2)),
       (Invoke (PObj 2) [''chromium'', ''launch''] [] [], Returns (PObj 3)),
       (Invoke (PObj 3) [''new_page''] [] [], Returns (PObj 4)),
       (Invoke (PObj 4) [''goto''] [PStr ''http://localhost:5173/src''] [], Returns (PObj 5)),
       (Invoke (PObj 4) [''screenshot''] []
          [(''path'', PStr ''app/jules-scratch/verification/verification.png'')],
        Returns (PObj 6)),
       (Invoke (PObj 3) [''close''] [] [], Returns PNone),
       (Invoke (PObj 1) [''__exit__''] [PNone, PNone, PNone] [], Returns PNone)])"
  by (simp add: eval_defs lib_up_def)

lemma run_down:
  "verify_app [] [] lib_down =
     (Inl (Exn ''Error: net::ERR_CONNECTION_REFUSED''),
      [(Import ''playwright.sync_api'' ''sync_playwright'', Returns (PObj 0)),
       (Invoke (PObj 0) [] [] [], Returns (PObj 1)),
       (Invoke (PObj 1) [''__enter__''] [] [], Returns (PObj 2)),
       (Invoke (PObj 2) [''chromium'', ''launch''] [] [], Returns (PObj 3)),
       (Invoke (PObj 3) [''new_page''] [] [], Returns (PObj 4)),
       (Invoke (PObj 4) [''goto''] [PStr ''http://localhost:5173/src''] [],
        Raises (Exn ''Error: net::ERR_CONNECTION_REFUSED'')),
       (Invoke (PObj 1) [''__exit__'']
          [PExcType (Exn ''Error: net::ERR_CONNECTION_REFUSED''),
           PExcVal (Exn ''Error: net::ERR_CONNECTION_REFUSED''),
           PTraceback (Exn ''Error: net::ERR_CONNECTION_REFUSED'')] [],
        Returns PNone)])"
  by (simp add: eval_defs lib_down_def lib_up_def)

lemma run_readonly:
  "verify_app [] [] lib_readonly =
     (Inl (Exn ''PermissionError''),
      [(Import ''playwright.sync_api'' ''sync_playwright'', Returns (PObj 0)),
       (Invoke (PObj 0) [] [] [], Returns (PObj 1)),
       (Invoke (PObj 1) [''__enter__''] [] [], Returns (PObj 2)),
       (Invoke (PObj 2) [''chromium'', ''launch''] [] [], Returns (PObj 3)),
       (Invoke (PObj 3) [''new_page''] [] [], Returns (PObj 4)),
       (Invoke (PObj 4) [''goto''] [PStr ''http://localhost:5173/src''] [], Returns (PObj 5)),
       (Invoke (PObj 4) [''screenshot''] []
          [(''path'', PStr ''app/jules-scratch/verification/verification.png'')],
        Raises (Exn ''PermissionError'')),
       (Invoke (PObj 1) [''__exit__'']
          [PExcType (Exn ''PermissionError''), PExcVal (Exn ''PermissionError''),
           PTraceback (Exn ''PermissionError'')] [],
        Returns PNone)])"
  by (simp add: eval_defs lib_readonly_def lib_up_def)

section \<open>The shape of a run\<close>

lemma steps_prefix_written:
  "prefix (map signature (steps (snd (script lib [])))) written_steps"
  by (cases rule: script_cases [of lib])
     (simp_all add: steps_def actions_def written_steps_def act_defs)

lemma exit_comes_last:
  "actions (snd (script lib [])) = steps (snd (script lib [])) \<or>
   (\<exists>mgr args. actions (snd (script lib [])) =
      steps (snd (script lib [])) @ [Invoke mgr [''__exit__''] args []])"
  by (cases rule: script_cases [of lib])
     (simp_all add: steps_def actions_def act_defs)

text \<open>A library that replays the history of a run makes the same run.\<close>

lemma replay_run:
  "replays lib' [] (snd (script lib [])) \<Longrightarrow> script lib' [] = script lib []"
  by (cases rule: script_cases [of lib])
     (simp_all add: script_folded [of lib'] with_stmt_perform with_body_folded
        and_then_perform finish_def)

lemmas read_defs = calls_to_def actions_def output_files_def raised_in_def returned_from_def
  exit_swallows_def exit_fails_def failures_def after_failure_def open_handles_def

section \<open>The properties of the script\<close>

text \<open>
  C1, as the code has it. Whatever the library does, the steps a run takes, without their
  receivers, are an initial part of the eight written ones (the import, the call of
  \<^verbatim>\<open>sync_playwright\<close>, the manager's \<^verbatim>\<open>__enter__\<close>, then \<^verbatim>\<open>launch\<close>,
  \<^verbatim>\<open>new_page\<close>, \<^verbatim>\<open>goto\<close>, \<^verbatim>\<open>screenshot\<close>, \<^verbatim>\<open>close\<close>), in that order, and
  the only other action is the manager's \<^verbatim>\<open>__exit__\<close>, last. When no call raises, the
  run is exactly that sequence whatever values the calls return, each value handed on
  unexamined as the receiver of a later call, and the block of the \<^verbatim>\<open>with\<close> statement
  makes five library calls.
\<close>

theorem script_is_linear:
  fixes argv environ lib
  defines "tr \<equiv> snd (verify_app argv environ lib)"
  shows "prefix (map signature (steps tr)) written_steps \<and>
    (actions tr = steps tr \<or>
      (\<exists>mgr args. actions tr = steps tr @ [Invoke mgr [''__exit__''] args []])) \<and>
    (\<not> list_ex raised tr \<longrightarrow>
      length (block_calls tr) = 5 \<and>
      (\<exists>f mgr p browser page r1 r2 r3 r4. tr =
        [(Import ''playwright.sync_api'' ''sync_playwright'', Returns f),
         (Invoke f [] [] [], Returns mgr),
         (Invoke mgr [''__enter__''] [] [], Returns p),
         (Invoke p [''chromium'', ''launch''] [] [], Returns browser),
         (Invoke browser [''new_page''] [] [], Returns page),
         (Invoke page [''goto''] [PStr ''http://localhost:5173/src''] [], Returns r1),
         (Invoke page [''screenshot''] []
            [(''path'', PStr ''app/jules-scratch/verification/verification.png'')],
          Returns r2),
         (Invoke browser [''close''] [] [], Returns r3),
         (Invoke mgr [''__exit__''] [PNone, PNone, PNone] [], Returns r4)]))"
proof -
  have "\<not> list_ex raised (snd (script lib [])) \<longrightarrow>
      length (block_calls (snd (script lib []))) = 5 \<and>
      (\<exists>f mgr p browser page r1 r2 r3 r4. snd (script lib []) =
        [(Import ''playwright.sync_api'' ''sync_playwright'', Returns f),
         (Invoke f [] [] [], Returns mgr),
         (Invoke mgr [''__enter__''] [] [], Returns p),
         (Invoke p [''chromium'', ''launch''] [] [], Returns browser),
         (Invoke browser [''new_page''] [] [], Returns page),
         (Invoke page [''goto''] [PStr ''http://localhost:5173/src''] [], Returns r1),
         (Invoke page [''screenshot''] []
            [(''path'', PStr ''app/jules-scratch/verification/verification.png'')],
          Returns r2),
         (Invoke browser [''close''] [] [], Returns r3),
         (Invoke mgr [''__exit__''] [PNone, PNone, PNone] [], Returns r4)])"
    by (cases rule: script_cases [of lib])
       (simp_all add: block_calls_def actions_def act_defs)
  then show ?thesis
    unfolding tr_def verify_app_def
    using steps_prefix_written [of lib] exit_comes_last [of lib] by blast
qed

text \<open>
  C1 as the specification counts it: against a library on which everything works the
  block makes five calls, \<^verbatim>\<open>goto\<close> among them, not four, and the run has nine
  actions in all, the import and the three calls of the \<^verbatim>\<open>with\<close> statement included.
\<close>

theorem block_is_not_four_calls:
  "fst (verify_app [] [] lib_up) = Inr () \<and>
   block_calls (snd (verify_app [] [] lib_up)) =
     [Invoke (PObj 2) [''chromium'', ''launch''] [] [],
      Invoke (PObj 3) [''new_page''] [] [],
      Invoke (PObj 4) [''goto''] [PStr ''http://localhost:5173/src''] [],
      Invoke (PObj 4) [''screenshot''] []
        [(''path'', PStr ''app/jules-scratch/verification/verification.png'')],
      Invoke (PObj 3) [''close''] [] []] \<and>
   length (block_calls (snd (verify_app [] [] lib_up))) \<noteq> 4 \<and>
   length (actions (snd (verify_app [] [] lib_up))) = 9"
  by (simp add: run_up block_calls_def actions_def)

text \<open>The run against the working library meets the hypothesis of C1's theorem.\<close>

theorem script_is_linear_witness:
  "\<not> list_ex raised (snd (verify_app [] [] lib_up)) \<and>
   length (block_calls (snd (verify_app [] [] lib_up))) = 5 \<and>
   prefix (map signature (steps (snd (verify_app [] [] lib_up)))) written_steps"
proof -
  have ok: "\<not> list_ex raised (snd (verify_app [] [] lib_up))"
    by (simp add: run_up)
  from script_is_linear [of "[]" "[]" lib_up] ok show ?thesis by blast
qed

text \<open>
  C2. In every run in which no library call raises, the module ends normally and exactly
  one image file is produced, at \<^verbatim>\<open>app/jules-scratch/verification/verification.png\<close>.
  In every run whatever, a screenshot call, if made, has no positional argument and the one
  keyword \<^verbatim>\<open>path\<close> with that constant, so no image is ever produced anywhere else:
  the location is not computed from anything.
\<close>

theorem one_image_at_fixed_path:
  fixes argv environ lib
  defines "run \<equiv> verify_app argv environ lib"
  shows "(\<not> list_ex raised (snd run) \<longrightarrow>
           fst run = Inr () \<and>
           output_files (snd run) = [''app/jules-scratch/verification/verification.png'']) \<and>
         (map signature (calls_to ''screenshot'' (snd run)) = [] \<or>
          map signature (calls_to ''screenshot'' (snd run)) =
            [Invoke PNone [''screenshot''] []
               [(''path'', PStr ''app/jules-scratch/verification/verification.png'')]]) \<and>
         (output_files (snd run) = [] \<or>
          output_files (snd run) = [''app/jules-scratch/verification/verification.png''])"
  unfolding run_def verify_app_def
  by (cases rule: script_cases [of lib]) (simp_all add: read_defs act_defs)

text \<open>The run against the working library: nothing raises, and the one file is there.\<close>

theorem one_image_at_fixed_path_witness:
  "\<not> list_ex raised (snd (verify_app [] [] lib_up)) \<and>
   fst (verify_app [] [] lib_up) = Inr () \<and>
   output_files (snd (verify_app [] [] lib_up)) =
     [''app/jules-scratch/verification/verification.png'']"
proof -
  have ok: "\<not> list_ex raised (snd (verify_app [] [] lib_up))"
    by (simp add: run_up)
  from one_image_at_fixed_path [of "[]" "[]" lib_up] ok show ?thesis by blast
qed

text \<open>
  C3. In every run in which \<^verbatim>\<open>goto\<close> raises, the screenshot call is never made and no
  image file is produced; and the process ends with the failure status 1, the uncaught
  exception being the last one raised, for a manager whose \<^verbatim>\<open>__exit__\<close> does not
  answer with a true value (the library's returns \<^verbatim>\<open>None\<close>).
\<close>

theorem unreachable_target_fails_without_output:
  fixes argv environ lib
  defines "run \<equiv> verify_app argv environ lib"
  assumes "raised_in ''goto'' (snd run)"
  shows "calls_to ''screenshot'' (snd run) = [] \<and>
         output_files (snd run) = [] \<and>
         (\<not> exit_swallows (snd run) \<longrightarrow>
            fst run = Inl (last (failures (snd run))) \<and> exit_status (fst run) = 1)"
  using assms(2) unfolding run_def verify_app_def
  by (cases rule: script_cases [of lib]) (simp_all add: read_defs act_defs)

text \<open>
  The run with nothing listening on the port: the navigation raises, \<^verbatim>\<open>__exit__\<close>
  returns \<^verbatim>\<open>None\<close>, nothing is written and the connection error ends the process.
\<close>

theorem unreachable_target_fails_without_output_witness:
  "raised_in ''goto'' (snd (verify_app [] [] lib_down)) \<and>
   \<not> exit_swallows (snd (verify_app [] [] lib_down)) \<and>
   calls_to ''screenshot'' (snd (verify_app [] [] lib_down)) = [] \<and>
   output_files (snd (verify_app [] [] lib_down)) = [] \<and>
   fst (verify_app [] [] lib_down) = Inl (Exn ''Error: net::ERR_CONNECTION_REFUSED'') \<and>
   exit_status (fst (verify_app [] [] lib_down)) = 1"
proof -
  have down: "raised_in ''goto'' (snd (verify_app [] [] lib_down))"
    by (simp add: run_down raised_in_def)
  have kept: "\<not> exit_swallows (snd (verify_app [] [] lib_down))"
    by (simp add: run_down exit_swallows_def)
  have which: "last (failures (snd (verify_app [] [] lib_down))) =
      Exn ''Error: net::ERR_CONNECTION_REFUSED''"
    by (simp add: run_down failures_def)
  from unreachable_target_fails_without_output [OF down] kept which down
  show ?thesis by simp
qed

text \<open>
  C4. In every run in which some action raises (the import, the call of
  \<^verbatim>\<open>sync_playwright\<close>, \<^verbatim>\<open>__enter__\<close>, any of the five calls of the block, or
  \<^verbatim>\<open>__exit__\<close>): after the first failure no written step is executed, the only action
  that can follow being the \<^verbatim>\<open>__exit__\<close> of the \<^verbatim>\<open>with\<close> statement; no action is
  issued twice; and the last exception raised leaves the module uncaught, ending the process
  with status 1, for a manager whose \<^verbatim>\<open>__exit__\<close> does not answer with a true value.
\<close>

theorem failure_propagates:
  fixes argv environ lib
  defines "run \<equiv> verify_app argv environ lib"
  assumes "list_ex raised (snd run)"
  shows "(map callee (actions (after_failure (snd run))) = [] \<or>
          map callee (actions (after_failure (snd run))) = [''__exit__'']) \<and>
         distinct (map signature (actions (snd run))) \<and>
         (\<not> exit_swallows (snd run) \<longrightarrow>
            fst run = Inl (last (failures (snd run))) \<and> exit_status (fst run) = 1)"
  using assms(2) unfolding run_def verify_app_def
  by (cases rule: script_cases [of lib]) (simp_all add: read_defs act_defs)

text \<open>
  The run that cannot write its file: the screenshot raises, only \<^verbatim>\<open>__exit__\<close> follows,
  and the error of the write ends the process.
\<close>

theorem failure_propagates_witness:
  "list_ex raised (snd (verify_app [] [] lib_readonly)) \<and>
   \<not> exit_swallows (snd (verify_app [] [] lib_readonly)) \<and>
   map callee (actions (after_failure (snd (verify_app [] [] lib_readonly)))) = [''__exit__''] \<and>
   fst (verify_app [] [] lib_readonly) = Inl (Exn ''PermissionError'') \<and>
   exit_status (fst (verify_app [] [] lib_readonly)) = 1"
proof -
  have failed: "list_ex raised (snd (verify_app [] [] lib_readonly))"
    by (simp add: run_readonly)
  have kept: "\<not> exit_swallows (snd (verify_app [] [] lib_readonly))"
    by (simp add: run_readonly exit_swallows_def)
  have which: "last (failures (snd (verify_app [] [] lib_readonly))) = Exn ''PermissionError''"
    by (simp add: run_readonly failures_def)
  have after: "map callee (actions (after_failure (snd (verify_app [] [] lib_readonly)))) =
      [''__exit__'']"
    by (simp add: run_readonly after_failure_def actions_def)
  from failure_propagates [OF failed] kept which failed after
  show ?thesis by simp
qed

text \<open>
  C5. The scope is left on every path. In every run in which the manager was entered, its
  \<^verbatim>\<open>__exit__\<close> is called exactly once, on the manager that was entered, and it is the
  last action of the run, whether the block ended or raised; in a run in which the manager
  was not entered no browser was launched. So, a manager's \<^verbatim>\<open>__exit__\<close> that returns
  having stopped what was started under it, no browser and no page is open after a run in
  which \<^verbatim>\<open>__exit__\<close> did not itself raise.
\<close>

theorem scope_released_on_every_path:
  fixes argv environ lib
  defines "tr \<equiv> snd (verify_app argv environ lib)"
  shows "(returned_from ''__enter__'' tr \<longrightarrow>
            length (calls_to ''__exit__'' tr) = 1 \<and>
            callee (fst (last tr)) = ''__exit__'' \<and>
            map receiver (calls_to ''__exit__'' tr) = map receiver (calls_to ''__enter__'' tr)) \<and>
         (\<not> returned_from ''__enter__'' tr \<longrightarrow> calls_to ''launch'' tr = []) \<and>
         (\<not> exit_fails tr \<longrightarrow> open_handles tr = [])"
  unfolding tr_def verify_app_def
  by (cases rule: script_cases [of lib]) (simp_all add: read_defs act_defs)

text \<open>
  The failure path: the browser is launched, the navigation raises, \<^verbatim>\<open>close\<close> is never
  called, and the run still ends with \<^verbatim>\<open>__exit__\<close> and with nothing open.
\<close>

theorem scope_released_on_every_path_witness:
  "returned_from ''__enter__'' (snd (verify_app [] [] lib_down)) \<and>
   \<not> exit_fails (snd (verify_app [] [] lib_down)) \<and>
   returned_from ''launch'' (snd (verify_app [] [] lib_down)) \<and>
   calls_to ''close'' (snd (verify_app [] [] lib_down)) = [] \<and>
   callee (fst (last (snd (verify_app [] [] lib_down)))) = ''__exit__'' \<and>
   open_handles (snd (verify_app [] [] lib_down)) = []"
proof -
  have entered: "returned_from ''__enter__'' (snd (verify_app [] [] lib_down))"
    by (simp add: run_down returned_from_def)
  have left: "\<not> exit_fails (snd (verify_app [] [] lib_down))"
    by (simp add: run_down exit_fails_def)
  have launched: "returned_from ''launch'' (snd (verify_app [] [] lib_down))"
    by (simp add: run_down returned_from_def)
  have unclosed: "calls_to ''close'' (snd (verify_app [] [] lib_down)) = []"
    by (simp add: run_down calls_to_def actions_def)
  from scope_released_on_every_path [of "[]" "[]" lib_down] entered left launched unclosed
  show ?thesis by blast
qed

text \<open>
  C6. In every run in which \<^verbatim>\<open>goto\<close> or \<^verbatim>\<open>screenshot\<close> raises, \<^verbatim>\<open>close\<close> is
  not called, and all that follows the failure is the manager's \<^verbatim>\<open>__exit__\<close>, called
  with the exception that was raised. Conversely \<^verbatim>\<open>close\<close> is called only in runs in
  which \<^verbatim>\<open>launch\<close>, \<^verbatim>\<open>new_page\<close>, \<^verbatim>\<open>goto\<close> and \<^verbatim>\<open>screenshot\<close> all returned.
\<close>

theorem close_only_on_normal_path:
  fixes argv environ lib
  defines "tr \<equiv> snd (verify_app argv environ lib)"
  shows "(raised_in ''goto'' tr \<or> raised_in ''screenshot'' tr \<longrightarrow>
            calls_to ''close'' tr = [] \<and>
            (\<exists>mgr. actions (after_failure tr) =
               [Invoke mgr [''__exit__'']
                  [PExcType (hd (failures tr)), PExcVal (hd (failures tr)),
                   PTraceback (hd (failures tr))] []])) \<and>
         (calls_to ''close'' tr \<noteq> [] \<longrightarrow>
            returned_from ''launch'' tr \<and> returned_from ''new_page'' tr \<and>
            returned_from ''goto'' tr \<and> returned_from ''screenshot'' tr)"
  unfolding tr_def verify_app_def
  by (cases rule: script_cases [of lib]) (simp_all add: read_defs act_defs)

text \<open>
  Both directions on a run: the failed write skips \<^verbatim>\<open>close\<close>, and the run that calls
  \<^verbatim>\<open>close\<close> is one in which the screenshot returned.
\<close>

theorem close_only_on_normal_path_witness:
  "raised_in ''screenshot'' (snd (verify_app [] [] lib_readonly)) \<and>
   calls_to ''close'' (snd (verify_app [] [] lib_readonly)) = [] \<and>
   calls_to ''close'' (snd (verify_app [] [] lib_up)) \<noteq> [] \<and>
   returned_from ''screenshot'' (snd (verify_app [] [] lib_up))"
proof -
  have failed: "raised_in ''screenshot'' (snd (verify_app [] [] lib_readonly))"
    by (simp add: run_readonly raised_in_def)
  have closed: "calls_to ''close'' (snd (verify_app [] [] lib_up)) \<noteq> []"
    by (simp add: run_up calls_to_def actions_def)
  from close_only_on_normal_path [of "[]" "[]" lib_readonly]
       close_only_on_normal_path [of "[]" "[]" lib_up] failed closed
  show ?thesis by blast
qed





text \<open>
  C9, as the code has it. The only import of a run is that of \<^verbatim>\<open>sync_playwright\<close>, so
  nothing in it can read the command line or the environment. A run is decided by the
  outcomes of the library calls it makes and by nothing else: an execution against any
  library that gives the calls of a run the outcomes they had is that run again, the same
  calls with the same receivers and arguments and the same end, whatever its command line
  and environment. And two executions whatever issue the same steps with the same arguments
  as far as both go: one sequence is an initial part of the other.
\<close>

theorem determined_by_library_outcomes:
  fixes argv environ lib argv' environ' lib'
  defines "run \<equiv> verify_app argv environ lib"
  defines "run' \<equiv> verify_app argv' environ' lib'"
  shows "filter is_import (actions (snd run)) =
           [Import ''playwright.sync_api'' ''sync_playwright''] \<and>
         (replays lib' [] (snd run) \<longrightarrow> run' = run) \<and>
         (prefix (map signature (steps (snd run))) (map signature (steps (snd run'))) \<or>
          prefix (map signature (steps (snd run'))) (map signature (steps (snd run))))"
proof -
  have one_import: "filter is_import (actions (snd (script lib []))) =
      [Import ''playwright.sync_api'' ''sync_playwright'']"
    by (cases rule: script_cases [of lib]) (simp_all add: actions_def act_defs)
  have same: "replays lib' [] (snd (script lib [])) \<longrightarrow> script lib' [] = script lib []"
    using replay_run [of lib' lib] by simp
  have comparable:
    "prefix (map signature (steps (snd (script lib [])))) (map signature (steps (snd (script lib' [])))) \<or>
     prefix (map signature (steps (snd (script lib' [])))) (map signature (steps (snd (script lib []))))"
    using steps_prefix_written [of lib] steps_prefix_written [of lib']
    by (auto dest: prefix_same_cases)
  from one_import same comparable show ?thesis
    unfolding run_def run'_def verify_app_def by blast
qed

text \<open>
  C9 as stated: two executions need not issue the same sequence of calls. With the target
  up the run has nine actions, the screenshot among them; with the target down it has
  seven and no screenshot.
\<close>

theorem runs_differ_with_library:
  "map signature (actions (snd (verify_app [] [] lib_up))) \<noteq>
   map signature (actions (snd (verify_app [] [] lib_down))) \<and>
   length (actions (snd (verify_app [] [] lib_up))) = 9 \<and>
   length (actions (snd (verify_app [] [] lib_down))) = 7 \<and>
   calls_to ''screenshot'' (snd (verify_app [] [] lib_up)) \<noteq> [] \<and>
   calls_to ''screenshot'' (snd (verify_app [] [] lib_down)) = []"
  by (simp add: run_up run_down actions_def calls_to_def)

text \<open>
  Two libraries that differ, on the screenshot, but not on anything the run with the target
  down asks: the second execution, with another command line and another environment, is
  the same run.
\<close>

theorem determined_by_library_outcomes_witness:
  "replays lib_offline [] (snd (verify_app [] [] lib_down)) \<and>
   verify_app [''--headed''] [(''CI'', ''1'')] lib_offline = verify_app [] [] lib_down \<and>
   lib_offline [] (Invoke PNone [''screenshot''] [] []) \<noteq>
     lib_down [] (Invoke PNone [''screenshot''] [] [])"
proof -
  have same_answers: "replays lib_offline [] (snd (verify_app [] [] lib_down))"
    by (simp add: run_down lib_offline_def lib_down_def lib_up_def)
  have other: "lib_offline [] (Invoke PNone [''screenshot''] [] []) \<noteq>
     lib_down [] (Invoke PNone [''screenshot''] [] [])"
    by (simp add: lib_offline_def lib_down_def lib_up_def)
  from determined_by_library_outcomes [where lib = lib_down and argv = "[]" and environ = "[]"
         and lib' = lib_offline and argv' = "[''--headed'']" and environ' = "[(''CI'', ''1'')]"]
       same_answers other
  show ?thesis by blast
qed

text \<open>
  C10. In every run, on every path, the screenshot call is made at most once and at most
  one image file is produced.
\<close>

theorem screenshot_at_most_once:
  fixes argv environ lib
  defines "tr \<equiv> snd (verify_app argv environ lib)"
  shows "length (calls_to ''screenshot'' tr) \<le> 1 \<and> length (output_files tr) \<le> 1"
  unfolding tr_def verify_app_def
  by (cases rule: script_cases [of lib]) (simp_all add: read_defs act_defs)

end
